theory Spec2Isabelle
  imports Main
begin

section \<open>Asynchronous values of the provisioning engine\<close>

text \<open>
  The component of \<^verbatim>\<open>cdn.ts\<close> describes resources over values that resolve later
  (\<^verbatim>\<open>Output<T>\<close>). A resolved output either carries its value or is rejected with
  the error thrown while it was computed, so an output is a sum with \<open>Inl\<close> for the
  rejection. A JavaScript \<^verbatim>\<open>throw new Error(msg)\<close> is the value \<open>Error msg\<close>;
  \<open>TypeError\<close> is the error the runtime itself throws when \<^verbatim>\<open>undefined\<close> is spread
  as a list or asked for its \<^verbatim>\<open>length\<close>.
\<close>

datatype error = Error string | TypeError

type_synonym 'a Output = "error + 'a"

text \<open>
  \<^verbatim>\<open>Input<T> = T | Promise<T> | Output<T>\<close>: a caller hands over either the plain
  value or a value wrapped in a promise or output, which may itself be rejected. The
  difference is visible to the code: a wrapper object is always truthy.
\<close>

datatype 'a input = Plain 'a | Wrapped "'a Output"

text \<open>\<^verbatim>\<open>output(x)\<close> lifts an input to an output; an output is returned as it is.\<close>

fun output_of :: "'a input \<Rightarrow> 'a Output" where
  "output_of (Plain v) = Inr v"
| "output_of (Wrapped p) = p"

text \<open>
  \<^verbatim>\<open>o.apply(f)\<close>: the callback runs only on a resolved value, a rejection is passed
  on, and an output returned by the callback is flattened.
\<close>

definition apply_output :: "'a Output \<Rightarrow> ('a \<Rightarrow> 'b Output) \<Rightarrow> 'b Output" where
  "apply_output p f = (case p of Inl e \<Rightarrow> Inl e | Inr v \<Rightarrow> f v)"

text \<open>The template \<^verbatim>\<open>interpolate`https://${x}`\<close>.\<close>

definition interpolate_https :: "string Output \<Rightarrow> string Output" where
  "interpolate_https x = apply_output x (\<lambda>s. Inr (''https://'' @ s))"

text \<open>
  JavaScript truthiness of an optional string property: \<^verbatim>\<open>undefined\<close> and the empty
  string are falsy, every other string is truthy.
\<close>

definition truthy :: "string option \<Rightarrow> bool" where
  "truthy x = (case x of None \<Rightarrow> False | Some s \<Rightarrow> s \<noteq> [])"

section \<open>Arguments of the component\<close>

text \<open>
  An optional property of an object literal is in one of three states: the object
  has no such property, the object has it with the value \<^verbatim>\<open>undefined\<close> (which the
  type \<^verbatim>\<open>aliases?: Input<string[]>\<close> allows), or it has a value. The spread of the
  normalizer tells the first two apart.
\<close>

datatype 'a property = Absent | Undefined | Defined 'a

text \<open>
  \<^verbatim>\<open>CdnDomainArgs\<close> as the callback of \<^verbatim>\<open>normalizeDomain\<close> sees it, that is with
  nested inputs already unwrapped by \<^verbatim>\<open>output\<close>. For the three string properties
  \<open>None\<close> stands for a property that is absent or \<^verbatim>\<open>undefined\<close>: the code reads
  them through \<^verbatim>\<open>!\<close>, \<^verbatim>\<open>&&\<close>, \<^verbatim>\<open>if\<close> and \<^verbatim>\<open>??\<close> only, which treat the two
  alike. \<^verbatim>\<open>domainName\<close> is required by the interface, but the code checks for it,
  so it is optional here as well. The two lists keep the three states.
\<close>

record CdnDomainArgs =
  domainName :: "string option"
  redirects :: "string list property"
  aliases :: "string list property"
  hostedZone :: "string option"
  hostedZoneId :: "string option"

text \<open>\<^verbatim>\<open>string | Prettify<CdnDomainArgs>\<close>\<close>

datatype domain_arg = DomainString string | DomainObject CdnDomainArgs

text \<open>
  The object the normalizer returns: the properties \<^verbatim>\<open>aliases\<close> and \<^verbatim>\<open>redirects\<close>
  are always there, with a list or with \<^verbatim>\<open>undefined\<close> (\<open>None\<close>) as their value;
  \<^verbatim>\<open>domainName\<close> has passed the check of the normalizer.
\<close>

record DomainConfig =
  normDomainName :: string
  normAliases :: "string list option"
  normRedirects :: "string list option"
  normHostedZone :: "string option"
  normHostedZoneId :: "string option"

section \<open>Resources\<close>

text \<open>
  The arguments of \<^verbatim>\<open>aws.cloudfront.Distribution\<close> that the component sets. The
  caller's transform works on this object.
\<close>

datatype viewerCertificate =
    AcmCertificate (acmCertificateArn: "string Output") (sslSupportMethod: string)
  | DefaultCertificate (cloudfrontDefaultCertificate: bool)

record defaultCacheBehavior =
  allowedMethods :: "string list"
  cachedMethods :: "string list"
  targetOriginId :: string
  viewerProtocolPolicy :: string

record DistributionArgs =
  cacheBehavior :: defaultCacheBehavior
  enabled :: bool
  origins :: "string list"
  geoRestrictionType :: string
  distributionAliases :: "string list input"
  viewerCert :: viewerCertificate

text \<open>
  One entry of the \<^verbatim>\<open>aliases\<close> list of a DNS record: target name, target zone id,
  \<^verbatim>\<open>evaluateTargetHealth\<close>.
\<close>

record aliasTarget =
  targetName :: "string Output"
  targetZoneId :: "string Output"
  evaluateTargetHealth :: bool

text \<open>
  A resource is what one \<^verbatim>\<open>new ...(name, args, opts)\<close> of the component declares:
  \<^item> \<open>HostedZoneLookup name domain\<close>;
  \<^item> \<open>DnsValidatedCertificate name domainName alternativeNames zoneId region\<close>, the
    region being that of the provider in \<^verbatim>\<open>opts\<close>;
  \<^item> \<open>Distribution name args\<close>;
  \<^item> \<open>Record name recordName zoneId type aliases\<close>;
  \<^item> \<open>HttpsRedirect name zoneId sourceDomains targetDomain\<close>.
  Every one of them has the component as its parent, which is left out.
\<close>

datatype resource =
    HostedZoneLookup string string
  | DnsValidatedCertificate string "string Output" "string list option Output" "string Output" string
  | Distribution string DistributionArgs
  | Record string string "string Output" string "aliasTarget list"
  | HttpsRedirect string "string Output" "string list" string

text \<open>
  The outputs of a declared resource (\<^verbatim>\<open>distribution.domainName\<close>,
  \<^verbatim>\<open>certificate.certificateArn\<close>, the \<^verbatim>\<open>zoneId\<close> of a lookup) are produced by the
  engine and its providers. They are a parameter of the model: an engine maps a
  resource and the name of one of its output properties to the output.
\<close>

type_synonym engine = "resource \<Rightarrow> string \<Rightarrow> string Output"

record CdnArgs =
  domain :: "domain_arg input option"
  transform_distribution :: "DistributionArgs \<Rightarrow> DistributionArgs"

text \<open>
  Modelled from the spec: the helper \<^verbatim>\<open>transform\<close> of \<^verbatim>\<open>../component.js\<close> is not
  part of the sources. The caller's function is applied to the fully built arguments
  immediately before the resource is created.
\<close>

definition transform :: "('a \<Rightarrow> 'a) \<Rightarrow> 'a \<Rightarrow> 'a" where
  "transform t a = t a"

section \<open>The steps of the constructor\<close>

definition missing_domainName :: error where
  \<open>missing_domainName = Error ''Missing "domainName" for domain.''\<close>

definition both_hostedZones :: error where
  \<open>both_hostedZones = Error ''Do not set both "hostedZone" and "hostedZoneId".''\<close>

text \<open>
  The callback of \<^verbatim>\<open>normalizeDomain\<close>. The spread \<^verbatim>\<open>{aliases: [], redirects: [],
  ...domain}\<close> copies every property the descriptor has over the two defaults: an
  absent list becomes the empty list, a list that is there stays, and so does an
  explicit \<^verbatim>\<open>undefined\<close>.
\<close>

definition normalize :: "domain_arg \<Rightarrow> DomainConfig Output" where
  "normalize d =
     (case d of
        DomainString s \<Rightarrow>
          Inr \<lparr>normDomainName = s, normAliases = Some [], normRedirects = Some [],
               normHostedZone = None, normHostedZoneId = None\<rparr>
      | DomainObject a \<Rightarrow>
          (case domainName a of
             None \<Rightarrow> Inl missing_domainName
           | Some n \<Rightarrow>
               if n = [] then Inl missing_domainName
               else if truthy (hostedZone a) \<and> truthy (hostedZoneId a)
                 then Inl both_hostedZones
               else Inr \<lparr>normDomainName = n,
                         normAliases =
                           (case aliases a of
                              Absent \<Rightarrow> Some [] | Undefined \<Rightarrow> None | Defined xs \<Rightarrow> Some xs),
                         normRedirects =
                           (case redirects a of
                              Absent \<Rightarrow> Some [] | Undefined \<Rightarrow> None | Defined xs \<Rightarrow> Some xs),
                         normHostedZone = hostedZone a,
                         normHostedZoneId = hostedZoneId a\<rparr>))"

text \<open>
  \<^verbatim>\<open>if (!args.domain) return;\<close> An absent argument and the plain empty string are
  falsy; a descriptor object and a wrapped value are truthy whatever they hold.
\<close>

definition normalizeDomain :: "CdnArgs \<Rightarrow> DomainConfig Output option" where
  "normalizeDomain args =
     (case domain args of
        None \<Rightarrow> None
      | Some i \<Rightarrow>
          if i = Plain (DomainString []) then None
          else Some (apply_output (output_of i) normalize))"

text \<open>
  The steps that declare resources return the resources they declare, in the order of
  the calls. \<^verbatim>\<open>lookupHostedZoneId\<close> returns the zone id as well.
\<close>

definition lookupHostedZoneId ::
  "engine \<Rightarrow> string \<Rightarrow> DomainConfig Output option \<Rightarrow> resource list \<times> string Output option" where
  "lookupHostedZoneId eng name dmn =
     (case dmn of
        None \<Rightarrow> ([], None)
      | Some p \<Rightarrow>
          (case p of
             Inl e \<Rightarrow> ([], Some (Inl e))
           | Inr d \<Rightarrow>
               (let r = HostedZoneLookup (name @ ''HostedZoneLookup'')
                          (case normHostedZone d of Some h \<Rightarrow> h | None \<Rightarrow> normDomainName d)
                in case normHostedZoneId d of
                     None \<Rightarrow> ([r], Some (eng r ''zoneId''))
                   | Some z \<Rightarrow>
                       if z \<noteq> [] then ([], Some (output_of (Plain z)))
                       else ([r], Some (eng r ''zoneId'')))))"

text \<open>
  \<^verbatim>\<open>if (!domain || !zoneId) return;\<close> at the head of three of the steps: a step is
  skipped when one of the two values is \<^verbatim>\<open>undefined\<close>. An output object is truthy
  even when it is rejected.
\<close>

definition skipped :: "'a option \<Rightarrow> 'b option \<Rightarrow> bool" where
  "skipped x y = (x = None \<or> y = None)"

definition createSsl ::
  "string \<Rightarrow> DomainConfig Output option \<Rightarrow> string Output option \<Rightarrow> resource option" where
  "createSsl name dmn zoneId =
     (if skipped dmn zoneId then None
      else
        (case (dmn, zoneId) of
           (Some p, Some z) \<Rightarrow>
             Some (DnsValidatedCertificate (name @ ''Ssl'')
                     (apply_output p (\<lambda>d. Inr (normDomainName d)))
                     (apply_output p (\<lambda>d. Inr (normAliases d)))
                     z ''us-east-1'')
         | _ \<Rightarrow> None))"

text \<open>
  The callback of \<^verbatim>\<open>aliases\<close> spreads \<^verbatim>\<open>domain.aliases\<close>, which throws on
  \<^verbatim>\<open>undefined\<close>: the output is rejected then.
\<close>

definition createDistribution ::
  "engine \<Rightarrow> string \<Rightarrow> CdnArgs \<Rightarrow> DomainConfig Output option \<Rightarrow> resource option \<Rightarrow> resource" where
  "createDistribution eng name args dmn certificate =
     Distribution (name @ ''Distribution'')
       (transform (transform_distribution args)
          \<lparr>cacheBehavior =
             \<lparr>allowedMethods = [], cachedMethods = [], targetOriginId = ''placeholder'',
              viewerProtocolPolicy = ''redirect-to-https''\<rparr>,
           enabled = True,
           origins = [],
           geoRestrictionType = ''none'',
           distributionAliases =
             (case dmn of
                Some p \<Rightarrow>
                  Wrapped (apply_output (output_of (Wrapped p))
                             (\<lambda>d. case normAliases d of
                                    None \<Rightarrow> Inl TypeError
                                  | Some as \<Rightarrow> Inr (normDomainName d # as)))
              | None \<Rightarrow> Plain []),
           viewerCert =
             (case certificate of
                Some c \<Rightarrow> AcmCertificate (eng c ''certificateArn'') ''sni-only''
              | None \<Rightarrow> DefaultCertificate True)\<rparr>)"

text \<open>
  The two nested loops of \<^verbatim>\<open>createRoute53Records\<close> over the names and the two
  kinds. \<^verbatim>\<open>sanitizeToPascalCase\<close> of \<^verbatim>\<open>../naming.js\<close> is not part of the sources
  and is a parameter.
\<close>

definition recordsOf ::
  "engine \<Rightarrow> (string \<Rightarrow> string) \<Rightarrow> string \<Rightarrow> string Output \<Rightarrow> resource \<Rightarrow> string list \<Rightarrow> resource list" where
  "recordsOf eng sanitizeToPascalCase name zoneId distribution names =
     concat (map (\<lambda>recordName.
                    map (\<lambda>type.
                           Record (name @ type @ ''Record'' @ sanitizeToPascalCase recordName)
                             recordName zoneId type
                             [\<lparr>targetName = eng distribution ''domainName'',
                               targetZoneId = eng distribution ''hostedZoneId'',
                               evaluateTargetHealth = True\<rparr>])
                        [''A'', ''AAAA''])
                 names)"

text \<open>
  The callback builds the list \<^verbatim>\<open>[domain.domainName, ...domain.aliases]\<close> before the
  first record: on \<^verbatim>\<open>undefined\<close> aliases it throws and declares nothing. The output
  of the callback is dropped, so only the declared resources are returned.
\<close>

definition createRoute53Records ::
  "engine \<Rightarrow> (string \<Rightarrow> string) \<Rightarrow> string \<Rightarrow> DomainConfig Output option \<Rightarrow> string Output option
     \<Rightarrow> resource \<Rightarrow> resource list" where
  "createRoute53Records eng sanitizeToPascalCase name dmn zoneId distribution =
     (if skipped dmn zoneId then []
      else
        (case (dmn, zoneId) of
           (Some p, Some z) \<Rightarrow>
             (case output_of (Wrapped p) of
                Inl e \<Rightarrow> []
              | Inr d \<Rightarrow>
                  (case normAliases d of
                     None \<Rightarrow> []
                   | Some as \<Rightarrow>
                       recordsOf eng sanitizeToPascalCase name z distribution
                         (normDomainName d # as)))
         | _ \<Rightarrow> []))"

text \<open>
  \<^verbatim>\<open>domain.redirects.length\<close> throws on \<^verbatim>\<open>undefined\<close> redirects, before the
  redirect is declared.
\<close>

definition createRedirects ::
  "string \<Rightarrow> DomainConfig Output option \<Rightarrow> string Output option \<Rightarrow> resource list" where
  "createRedirects name dmn zoneId =
     (if skipped zoneId dmn then []
      else
        (case (zoneId, dmn) of
           (Some z, Some p) \<Rightarrow>
             (case output_of (Wrapped p) of
                Inl e \<Rightarrow> []
              | Inr d \<Rightarrow>
                  (case normRedirects d of
                     None \<Rightarrow> []
                   | Some rs \<Rightarrow>
                       if length rs = 0 then []
                       else [HttpsRedirect (name @ ''Redirect'') z rs (normDomainName d)]))
         | _ \<Rightarrow> []))"

section \<open>The component\<close>

text \<open>
  An instance of \<^verbatim>\<open>Cdn\<close> after its constructor has run and its outputs have
  resolved: the two private fields, the two local values every step reads, and the
  resources each step has declared.
\<close>

record Cdn =
  distribution :: resource
  domainUrl_field :: "string Output option"
  normalizedDomain :: "DomainConfig Output option"
  zoneId :: "string Output option"
  lookups :: "resource list"
  certificate :: "resource option"
  dnsRecords :: "resource list"
  httpsRedirects :: "resource list"

definition Cdn_constructor :: "engine \<Rightarrow> (string \<Rightarrow> string) \<Rightarrow> string \<Rightarrow> CdnArgs \<Rightarrow> Cdn" where
  "Cdn_constructor eng sanitizeToPascalCase name args =
     (let dmn = normalizeDomain args;
          (looked, zone) = lookupHostedZoneId eng name dmn;
          cert = createSsl name dmn zone;
          dist = createDistribution eng name args dmn cert;
          recs = createRoute53Records eng sanitizeToPascalCase name dmn zone dist;
          reds = createRedirects name dmn zone
      in \<lparr>distribution = dist,
          domainUrl_field =
            (case dmn of
               Some p \<Rightarrow> Some (interpolate_https (apply_output p (\<lambda>d. Inr (normDomainName d))))
             | None \<Rightarrow> None),
          normalizedDomain = dmn,
          zoneId = zone,
          lookups = looked,
          certificate = cert,
          dnsRecords = recs,
          httpsRedirects = reds\<rparr>)"

text \<open>The getters \<^verbatim>\<open>url\<close> and \<^verbatim>\<open>domainUrl\<close>.\<close>

definition url :: "engine \<Rightarrow> Cdn \<Rightarrow> string Output" where
  "url eng c = interpolate_https (eng (distribution c) ''domainName'')"

definition domainUrl :: "Cdn \<Rightarrow> string Output option" where
  "domainUrl c = domainUrl_field c"

text \<open>Every resource the constructor has declared.\<close>

definition resources :: "Cdn \<Rightarrow> resource list" where
  "resources c =
     lookups c @ (case certificate c of Some r \<Rightarrow> [r] | None \<Rightarrow> [])
       @ [distribution c] @ dnsRecords c @ httpsRedirects c"

definition isCertificate :: "resource \<Rightarrow> bool" where
  "isCertificate r = (case r of DnsValidatedCertificate n d a z g \<Rightarrow> True | _ \<Rightarrow> False)"

definition isRecord :: "resource \<Rightarrow> bool" where
  "isRecord r = (case r of Record n m z t a \<Rightarrow> True | _ \<Rightarrow> False)"

definition isRedirect :: "resource \<Rightarrow> bool" where
  "isRedirect r = (case r of HttpsRedirect n z s t \<Rightarrow> True | _ \<Rightarrow> False)"

definition isLookup :: "resource \<Rightarrow> bool" where
  "isLookup r = (case r of HostedZoneLookup n d \<Rightarrow> True | _ \<Rightarrow> False)"

text \<open>
  A normalized domain read again as a descriptor: in JavaScript it is the same object,
  with the same properties, the two lists among them.
\<close>

definition asDescriptor :: "DomainConfig \<Rightarrow> CdnDomainArgs" where
  "asDescriptor c =
     \<lparr>domainName = Some (normDomainName c),
      redirects = (case normRedirects c of None \<Rightarrow> Undefined | Some xs \<Rightarrow> Defined xs),
      aliases = (case normAliases c of None \<Rightarrow> Undefined | Some xs \<Rightarrow> Defined xs),
      hostedZone = normHostedZone c,
      hostedZoneId = normHostedZoneId c\<rparr>"

section \<open>The runtime resource table\<close>

text \<open>
  The \<^verbatim>\<open>get\<close> trap of the proxy \<^verbatim>\<open>Resource\<close>. The state it reads is the process
  environment, a map from variable names to strings, and the global
  \<^verbatim>\<open>$SST_LINKS\<close>, which is \<open>None\<close> when the runtime has not injected it and
  otherwise maps every property name that \<^verbatim>\<open>in\<close> finds to the value that indexing
  returns. The trap ends in one of three ways: it returns what \<^verbatim>\<open>JSON.parse\<close> makes
  of a text (the parsed value, or the syntax error \<^verbatim>\<open>JSON.parse\<close> throws), it
  returns an entry of the table, or it throws. \<^verbatim>\<open>prop in undefined\<close> throws a
  \<^verbatim>\<open>TypeError\<close>.
\<close>

datatype 'v outcome = JSON_parse string | Entry 'v | Throw error | Throw_TypeError

definition not_linked :: "string \<Rightarrow> error" where
  "not_linked prop = Error ([CHR 0x22] @ prop @ [CHR 0x22] @ '' is not linked'')"

definition Resource_get ::
  "(string \<rightharpoonup> string) \<Rightarrow> (string \<rightharpoonup> 'v) option \<Rightarrow> string \<Rightarrow> 'v outcome" where
  "Resource_get env links prop =
     (let envName = ''SST_RESOURCE_'' @ prop;
          fromLinks =
            (case links of
               None \<Rightarrow> Throw_TypeError
             | Some table \<Rightarrow>
                 (case table prop of
                    Some v \<Rightarrow> Entry v
                  | None \<Rightarrow> Throw (not_linked prop)))
      in case env envName of
           None \<Rightarrow> fromLinks
         | Some s \<Rightarrow> if s \<noteq> [] then JSON_parse s else fromLinks)"

section \<open>Sample collaborators\<close>

text \<open>
  An engine that resolves every output property of every resource to the name of the
  property, for the concrete instances below.
\<close>

definition sampleEngine :: engine where
  "sampleEngine r p = Inr p"

text \<open>
  Arguments with a domain and no transform, arguments without a domain, and the
  descriptors and configurations of the concrete instances.
\<close>

definition sampleArgs :: "domain_arg input \<Rightarrow> CdnArgs" where
  "sampleArgs i = \<lparr>domain = Some i, transform_distribution = id\<rparr>"

definition bothZones :: CdnDomainArgs where
  "bothZones =
     \<lparr>domainName = Some ''app.example.com'', redirects = Absent, aliases = Absent,
      hostedZone = Some ''example.com'', hostedZoneId = Some ''Z2FDTNDATAQYW2''\<rparr>"

definition emptyZoneName :: CdnDomainArgs where
  "emptyZoneName =
     \<lparr>domainName = Some ''app.example.com'', redirects = Absent, aliases = Absent,
      hostedZone = Some [], hostedZoneId = Some ''Z2FDTNDATAQYW2''\<rparr>"

definition noDomainName :: CdnDomainArgs where
  "noDomainName =
     \<lparr>domainName = None, redirects = Absent, aliases = Defined [''www.example.com''],
      hostedZone = None, hostedZoneId = None\<rparr>"

definition fullDescriptor :: CdnDomainArgs where
  "fullDescriptor =
     \<lparr>domainName = Some ''app.example.com'', redirects = Defined [''www.example.com''],
      aliases = Defined [''app2.example.com''],
      hostedZone = Some ''example.com'', hostedZoneId = None\<rparr>"

definition fullConfig :: DomainConfig where
  "fullConfig =
     \<lparr>normDomainName = ''app.example.com'', normAliases = Some [''app2.example.com''],
      normRedirects = Some [''www.example.com''],
      normHostedZone = Some ''example.com'', normHostedZoneId = None\<rparr>"

definition zoneIdDescriptor :: CdnDomainArgs where
  "zoneIdDescriptor =
     \<lparr>domainName = Some ''domain.com'', redirects = Absent, aliases = Absent,
      hostedZone = None, hostedZoneId = Some ''Z2FDTNDATAQYW2''\<rparr>"

definition zoneIdConfig :: DomainConfig where
  "zoneIdConfig =
     \<lparr>normDomainName = ''domain.com'', normAliases = Some [], normRedirects = Some [],
      normHostedZone = None, normHostedZoneId = Some ''Z2FDTNDATAQYW2''\<rparr>"

definition noDomainArgs :: CdnArgs where
  "noDomainArgs = \<lparr>domain = None, transform_distribution = id\<rparr>"

definition emptyZoneId :: CdnDomainArgs where
  "emptyZoneId =
     \<lparr>domainName = Some ''domain.com'', redirects = Absent, aliases = Absent,
      hostedZone = None, hostedZoneId = Some []\<rparr>"

text \<open>
  A descriptor whose \<^verbatim>\<open>aliases\<close> property is there with the value \<^verbatim>\<open>undefined\<close>,
  and what the normalizer makes of it.
\<close>

definition undefinedAliases :: CdnDomainArgs where
  "undefinedAliases =
     \<lparr>domainName = Some ''domain.com'', redirects = Absent, aliases = Undefined,
      hostedZone = None, hostedZoneId = Some ''Z2FDTNDATAQYW2''\<rparr>"

definition undefinedAliasesConfig :: DomainConfig where
  "undefinedAliasesConfig =
     \<lparr>normDomainName = ''domain.com'', normAliases = None, normRedirects = Some [],
      normHostedZone = None, normHostedZoneId = Some ''Z2FDTNDATAQYW2''\<rparr>"

text \<open>The normalizer's result on the empty string, which only a wrapped input reaches.\<close>

definition emptyNameConfig :: DomainConfig where
  "emptyNameConfig =
     \<lparr>normDomainName = [], normAliases = Some [], normRedirects = Some [],
      normHostedZone = None, normHostedZoneId = None\<rparr>"

section \<open>The constructor, step by step\<close>

text \<open>Each field of the instance is the result of one step on the results before it.\<close>

lemma Cdn_normalizedDomain:
  "normalizedDomain (Cdn_constructor eng san name args) = normalizeDomain args"
  by (simp add: Cdn_constructor_def Let_def split: prod.split)

lemma Cdn_zoneId:
  "zoneId (Cdn_constructor eng san name args) =
     snd (lookupHostedZoneId eng name (normalizeDomain args))"
  by (simp add: Cdn_constructor_def Let_def split: prod.split)

lemma Cdn_lookups:
  "lookups (Cdn_constructor eng san name args) =
     fst (lookupHostedZoneId eng name (normalizeDomain args))"
  by (simp add: Cdn_constructor_def Let_def split: prod.split)

lemma Cdn_certificate:
  "certificate (Cdn_constructor eng san name args) =
     createSsl name (normalizeDomain args) (zoneId (Cdn_constructor eng san name args))"
  by (simp add: Cdn_constructor_def Let_def split: prod.split)

lemma Cdn_distribution:
  "distribution (Cdn_constructor eng san name args) =
     createDistribution eng name args (normalizeDomain args)
       (certificate (Cdn_constructor eng san name args))"
  by (simp add: Cdn_constructor_def Let_def split: prod.split)

lemma Cdn_dnsRecords:
  "dnsRecords (Cdn_constructor eng san name args) =
     createRoute53Records eng san name (normalizeDomain args)
       (zoneId (Cdn_constructor eng san name args))
       (distribution (Cdn_constructor eng san name args))"
  by (simp add: Cdn_constructor_def Let_def split: prod.split)

lemma Cdn_httpsRedirects:
  "httpsRedirects (Cdn_constructor eng san name args) =
     createRedirects name (normalizeDomain args) (zoneId (Cdn_constructor eng san name args))"
  by (simp add: Cdn_constructor_def Let_def split: prod.split)

lemma Cdn_domainUrl:
  "domainUrl (Cdn_constructor eng san name args) =
     (case normalizeDomain args of
        Some p \<Rightarrow> Some (interpolate_https (apply_output p (\<lambda>d. Inr (normDomainName d))))
      | None \<Rightarrow> None)"
  by (simp add: domainUrl_def Cdn_constructor_def Let_def split: prod.split)

lemmas Cdn_steps = Cdn_normalizedDomain Cdn_zoneId Cdn_lookups Cdn_certificate
  Cdn_dnsRecords Cdn_httpsRedirects Cdn_domainUrl

text \<open>What the steps do on a rejected domain.\<close>

lemma rejected_domain:
  assumes "normalizeDomain args = Some (Inl e)"
    and "c = Cdn_constructor eng san name args"
  shows "zoneId c = Some (Inl e)"
    and "lookups c = []"
    and "certificate c =
           Some (DnsValidatedCertificate (name @ ''Ssl'') (Inl e) (Inl e) (Inl e) ''us-east-1'')"
    and "dnsRecords c = []"
    and "httpsRedirects c = []"
    and "domainUrl c = Some (Inl e)"
  using assms
  by (simp_all add: Cdn_steps lookupHostedZoneId_def createSsl_def skipped_def
      createRoute53Records_def createRedirects_def apply_output_def interpolate_https_def)

lemma rejected_domain_resources:
  assumes "normalizeDomain args = Some (Inl e)"
    and "c = Cdn_constructor eng san name args"
  shows "resources c =
           [DnsValidatedCertificate (name @ ''Ssl'') (Inl e) (Inl e) (Inl e) ''us-east-1'',
            distribution c]"
  using rejected_domain[OF assms] by (simp add: resources_def)

lemma rejected_domain_distribution:
  assumes "normalizeDomain args = Some (Inl e)"
    and "c = Cdn_constructor eng san name args"
  shows "distribution c =
           Distribution (name @ ''Distribution'')
             (transform_distribution args
                \<lparr>cacheBehavior =
                   \<lparr>allowedMethods = [], cachedMethods = [], targetOriginId = ''placeholder'',
                    viewerProtocolPolicy = ''redirect-to-https''\<rparr>,
                 enabled = True, origins = [], geoRestrictionType = ''none'',
                 distributionAliases = Wrapped (Inl e),
                 viewerCert =
                   AcmCertificate
                     (eng (DnsValidatedCertificate (name @ ''Ssl'') (Inl e) (Inl e) (Inl e)
                             ''us-east-1'') ''certificateArn'')
                     ''sni-only''\<rparr>)"
proof -
  have "certificate (Cdn_constructor eng san name args) =
          Some (DnsValidatedCertificate (name @ ''Ssl'') (Inl e) (Inl e) (Inl e) ''us-east-1'')"
    using rejected_domain(3)[OF assms(1) refl] .
  then show ?thesis
    using assms
    by (simp add: Cdn_distribution createDistribution_def transform_def apply_output_def)
qed

lemma normalizeDomain_object:
  assumes "domain args = Some i" and "output_of i = Inr (DomainObject a)"
  shows "normalizeDomain args = Some (normalize (DomainObject a))"
proof -
  have "i \<noteq> Plain (DomainString [])"
    using assms(2) by auto
  with assms show ?thesis
    by (simp add: normalizeDomain_def apply_output_def)
qed

text \<open>What the steps do on a domain that resolves.\<close>

lemma resolved_domain:
  assumes "normalizeDomain args = Some (Inr d)"
    and "c = Cdn_constructor eng san name args"
  shows "\<exists>zo. zoneId c = Some zo"
    and "zoneId c = Some zo \<Longrightarrow>
           certificate c =
             Some (DnsValidatedCertificate (name @ ''Ssl'') (Inr (normDomainName d))
                     (Inr (normAliases d)) zo ''us-east-1'')"
    and "zoneId c = Some zo \<Longrightarrow>
           dnsRecords c =
             (case normAliases d of
                None \<Rightarrow> []
              | Some as \<Rightarrow> recordsOf eng san name zo (distribution c) (normDomainName d # as))"
    and "zoneId c = Some zo \<Longrightarrow>
           httpsRedirects c =
             (case normRedirects d of
                None \<Rightarrow> []
              | Some rs \<Rightarrow>
                  if rs = [] then []
                  else [HttpsRedirect (name @ ''Redirect'') zo rs (normDomainName d)])"
    and "domainUrl c = Some (Inr (''https://'' @ normDomainName d))"
proof -
  show "\<exists>zo. zoneId c = Some zo"
    using assms
    by (simp add: Cdn_zoneId lookupHostedZoneId_def Let_def split: option.split)
  show "zoneId c = Some zo \<Longrightarrow>
           certificate c =
             Some (DnsValidatedCertificate (name @ ''Ssl'') (Inr (normDomainName d))
                     (Inr (normAliases d)) zo ''us-east-1'')"
    using assms by (simp add: Cdn_certificate createSsl_def skipped_def apply_output_def)
  show "zoneId c = Some zo \<Longrightarrow>
           dnsRecords c =
             (case normAliases d of
                None \<Rightarrow> []
              | Some as \<Rightarrow> recordsOf eng san name zo (distribution c) (normDomainName d # as))"
    using assms
    by (simp add: Cdn_dnsRecords createRoute53Records_def skipped_def split: option.split)
  show "zoneId c = Some zo \<Longrightarrow>
           httpsRedirects c =
             (case normRedirects d of
                None \<Rightarrow> []
              | Some rs \<Rightarrow>
                  if rs = [] then []
                  else [HttpsRedirect (name @ ''Redirect'') zo rs (normDomainName d)])"
    using assms
    by (simp add: Cdn_httpsRedirects createRedirects_def skipped_def split: option.split)
  show "domainUrl c = Some (Inr (''https://'' @ normDomainName d))"
    using assms by (simp add: Cdn_domainUrl interpolate_https_def apply_output_def)
qed

text \<open>Which step declares which kind of resource.\<close>

lemma lookups_are_lookups:
  "filter isRecord (lookups (Cdn_constructor eng san name args)) = []"
  "filter isRedirect (lookups (Cdn_constructor eng san name args)) = []"
  "filter isCertificate (lookups (Cdn_constructor eng san name args)) = []"
  by (simp_all add: Cdn_lookups lookupHostedZoneId_def Let_def isRecord_def isRedirect_def
      isCertificate_def split: option.split sum.split)

lemma distribution_is_distribution:
  "\<not> isRecord (distribution (Cdn_constructor eng san name args))"
  "\<not> isRedirect (distribution (Cdn_constructor eng san name args))"
  "\<not> isCertificate (distribution (Cdn_constructor eng san name args))"
  "\<not> isLookup (distribution (Cdn_constructor eng san name args))"
  by (simp_all add: Cdn_distribution createDistribution_def isRecord_def isRedirect_def
      isCertificate_def isLookup_def)

lemma filter_isRecord_recordsOf:
  "filter isRecord (recordsOf eng san name zo dist names) = recordsOf eng san name zo dist names"
  by (rule filter_True) (auto simp: recordsOf_def isRecord_def)

lemma filter_isRedirect_recordsOf:
  "filter isRedirect (recordsOf eng san name zo dist names) = []"
  by (auto simp: filter_empty_conv recordsOf_def isRedirect_def)

lemma length_recordsOf:
  "length (recordsOf eng san name zo dist names) = 2 * length names"
proof -
  have "length (concat (map (\<lambda>n. [f n, g n]) xs)) = 2 * length xs"
    for f g :: "string \<Rightarrow> resource" and xs
    by (induction xs) simp_all
  then show ?thesis
    by (simp add: recordsOf_def)
qed

lemma records_among_resources:
  assumes "normalizeDomain args = Some (Inr d)"
    and "c = Cdn_constructor eng san name args"
  shows "filter isRecord (resources c) = dnsRecords c"
proof -
  obtain zo where zo: "zoneId c = Some zo"
    using resolved_domain(1)[OF assms] by blast
  have recs: "filter isRecord (dnsRecords c) = dnsRecords c"
    using resolved_domain(3)[OF assms zo]
    by (simp add: filter_isRecord_recordsOf split: option.split)
  have cert: "filter isRecord (case certificate c of Some r \<Rightarrow> [r] | None \<Rightarrow> []) = []"
    using resolved_domain(2)[OF assms zo] by (simp add: isRecord_def)
  have reds: "filter isRecord (httpsRedirects c) = []"
    using resolved_domain(4)[OF assms zo] by (simp add: isRecord_def split: option.split)
  show ?thesis
    using recs cert reds lookups_are_lookups(1)[of eng san name args]
      distribution_is_distribution(1)[of eng san name args] assms(2)
    by (simp add: resources_def)
qed

text \<open>
  With an alias list of \<open>N\<close> names and a resolved zone id the records are the
  \<^verbatim>\<open>A\<close> and \<^verbatim>\<open>AAAA\<close> record of each name in \<^verbatim>\<open>[domainName, ...aliases]\<close>, in this
  order, \<open>2 * (N + 1)\<close> of them, each with one alias on the distribution.
\<close>

lemma dns_records_of_alias_list:
  assumes "normalizeDomain args = Some (Inr d)"
    and "normAliases d = Some as"
    and "c = Cdn_constructor eng san name args"
    and "zoneId c = Some (Inr z)"
    and "target = \<lparr>targetName = eng (distribution c) ''domainName'',
                   targetZoneId = eng (distribution c) ''hostedZoneId'',
                   evaluateTargetHealth = True\<rparr>"
  shows "filter isRecord (resources c) =
           concat (map (\<lambda>n. [Record (name @ ''A'' @ ''Record'' @ san n) n (Inr z) ''A'' [target],
                              Record (name @ ''AAAA'' @ ''Record'' @ san n) n (Inr z) ''AAAA'' [target]])
                       (normDomainName d # as))
       \<and> length (filter isRecord (resources c)) = 2 * (length as + 1)"
proof -
  have recs: "dnsRecords c = recordsOf eng san name (Inr z) (distribution c) (normDomainName d # as)"
    using resolved_domain(3)[OF assms(1,3,4)] assms(2) by simp
  have all: "filter isRecord (resources c)
               = recordsOf eng san name (Inr z) (distribution c) (normDomainName d # as)"
    using records_among_resources[OF assms(1,3)] recs by simp
  show ?thesis
    using all assms(5) by (simp add: length_recordsOf) (simp add: recordsOf_def)
qed

lemma normalizeDomain_None:
  "(normalizeDomain args = None) =
     (domain args = None \<or> domain args = Some (Plain (DomainString [])))"
  by (simp add: normalizeDomain_def split: option.split)

text \<open>A result of the normalizer never has both zone fields truthy.\<close>

lemma normalize_zone_fields:
  assumes "normalize v = Inr c"
  shows "\<not> (truthy (normHostedZone c) \<and> truthy (normHostedZoneId c))"
  using assms
  by (cases v) (auto simp: normalize_def truthy_def split: option.splits if_splits)

text \<open>The sample descriptors, normalized, and their zone ids under the sample engine.\<close>

lemma normalizeDomain_full:
  "normalizeDomain (sampleArgs (Plain (DomainObject fullDescriptor))) = Some (Inr fullConfig)"
  by (simp add: normalizeDomain_def sampleArgs_def fullDescriptor_def fullConfig_def
      normalize_def apply_output_def truthy_def)

lemma zoneId_full:
  "zoneId (Cdn_constructor sampleEngine id ''Web'' (sampleArgs (Plain (DomainObject fullDescriptor))))
     = Some (Inr ''zoneId'')"
  by (simp add: Cdn_zoneId normalizeDomain_full lookupHostedZoneId_def fullConfig_def
      sampleEngine_def)

lemma normalizeDomain_zoneId:
  "normalizeDomain (sampleArgs (Plain (DomainObject zoneIdDescriptor))) = Some (Inr zoneIdConfig)"
  by (simp add: normalizeDomain_def sampleArgs_def zoneIdDescriptor_def zoneIdConfig_def
      normalize_def apply_output_def truthy_def)

lemma zoneId_zoneId:
  "zoneId (Cdn_constructor sampleEngine id ''Web''
     (sampleArgs (Plain (DomainObject zoneIdDescriptor)))) = Some (Inr ''Z2FDTNDATAQYW2'')"
  by (simp add: Cdn_zoneId normalizeDomain_zoneId lookupHostedZoneId_def zoneIdConfig_def)

lemma normalizeDomain_undefinedAliases:
  "normalizeDomain (sampleArgs (Plain (DomainObject undefinedAliases)))
     = Some (Inr undefinedAliasesConfig)"
  by (simp add: normalizeDomain_def sampleArgs_def undefinedAliases_def
      undefinedAliasesConfig_def normalize_def apply_output_def truthy_def)

lemma zoneId_undefinedAliases:
  "zoneId (Cdn_constructor sampleEngine id ''Web''
     (sampleArgs (Plain (DomainObject undefinedAliases)))) = Some (Inr ''Z2FDTNDATAQYW2'')"
  by (simp add: Cdn_zoneId normalizeDomain_undefinedAliases lookupHostedZoneId_def
      undefinedAliasesConfig_def)

section \<open>Validation of the domain descriptor\<close>

text \<open>
  C1 as stated does not hold. A descriptor with both \<^verbatim>\<open>hostedZone\<close> and
  \<^verbatim>\<open>hostedZoneId\<close> is rejected by the callback of the normalizer, but the
  certificate and the distribution are declared outside that callback: the component
  declares both. And a descriptor whose \<^verbatim>\<open>hostedZone\<close> is the empty string passes
  the check.
\<close>

theorem C1_counterexample:
  "normalizedDomain (Cdn_constructor sampleEngine id ''Web'' (sampleArgs (Plain (DomainObject bothZones))))
     = Some (Inl both_hostedZones)
   \<and> certificate (Cdn_constructor sampleEngine id ''Web'' (sampleArgs (Plain (DomainObject bothZones))))
     = Some (DnsValidatedCertificate ''WebSsl'' (Inl both_hostedZones) (Inl both_hostedZones)
               (Inl both_hostedZones) ''us-east-1'')
   \<and> length (resources (Cdn_constructor sampleEngine id ''Web''
                 (sampleArgs (Plain (DomainObject bothZones))))) = 2
   \<and> normalizedDomain (Cdn_constructor sampleEngine id ''Web''
                 (sampleArgs (Plain (DomainObject emptyZoneName))))
     = Some (Inr \<lparr>normDomainName = ''app.example.com'', normAliases = Some [],
                  normRedirects = Some [],
                  normHostedZone = Some [], normHostedZoneId = Some ''Z2FDTNDATAQYW2''\<rparr>)"
  by (simp add: Cdn_steps resources_def sampleArgs_def bothZones_def emptyZoneName_def
      normalizeDomain_def normalize_def apply_output_def truthy_def lookupHostedZoneId_def
      createSsl_def skipped_def createRoute53Records_def createRedirects_def)

text \<open>
  C1, amended: for every structured domain descriptor in which \<^verbatim>\<open>hostedZone\<close> and
  \<^verbatim>\<open>hostedZoneId\<close> are both non-empty strings, whether handed over plainly or
  wrapped, the normalized domain is rejected with a descriptive error: the one about
  the two zone fields when \<^verbatim>\<open>domainName\<close> is a non-empty string, the one about the
  missing \<^verbatim>\<open>domainName\<close> otherwise. The zone id and \<^verbatim>\<open>domainUrl\<close> are rejected
  with it. Exactly two resources are declared, so no zone lookup, DNS record or
  redirect: the certificate, with the rejection as its domain name, alternative names
  and zone id, and the distribution, with what the caller's transform returns on the
  default arguments whose aliases are the rejection and whose viewer certificate is the
  \<^verbatim>\<open>certificateArn\<close> of that certificate.
\<close>

theorem C1_both_zone_fields_rejected:
  assumes "domain args = Some i"
    and "output_of i = Inr (DomainObject a)"
    and "truthy (hostedZone a)"
    and "truthy (hostedZoneId a)"
    and "e = (if truthy (domainName a) then both_hostedZones else missing_domainName)"
    and "c = Cdn_constructor eng san name args"
    and "cert = DnsValidatedCertificate (name @ ''Ssl'') (Inl e) (Inl e) (Inl e) ''us-east-1''"
  shows "normalizedDomain c = Some (Inl e)
       \<and> zoneId c = Some (Inl e)
       \<and> domainUrl c = Some (Inl e)
       \<and> resources c = [cert, distribution c]
       \<and> distribution c =
           Distribution (name @ ''Distribution'')
             (transform_distribution args
                \<lparr>cacheBehavior =
                   \<lparr>allowedMethods = [], cachedMethods = [], targetOriginId = ''placeholder'',
                    viewerProtocolPolicy = ''redirect-to-https''\<rparr>,
                 enabled = True, origins = [], geoRestrictionType = ''none'',
                 distributionAliases = Wrapped (Inl e),
                 viewerCert = AcmCertificate (eng cert ''certificateArn'') ''sni-only''\<rparr>)"
proof -
  have "normalize (DomainObject a) = Inl e"
    using assms(3,4,5) by (simp add: normalize_def truthy_def split: option.splits)
  then have rej: "normalizeDomain args = Some (Inl e)"
    using normalizeDomain_object[OF assms(1,2)] by simp
  show ?thesis
    using rejected_domain[OF rej assms(6)] rejected_domain_resources[OF rej assms(6)]
      rejected_domain_distribution[OF rej assms(6)] rej assms(6,7)
    by (simp add: Cdn_normalizedDomain)
qed

theorem C1_both_zone_fields_rejected_witness:
  "normalizedDomain (Cdn_constructor sampleEngine id ''Web'' (sampleArgs (Wrapped (Inr (DomainObject bothZones)))))
     = Some (Inl both_hostedZones)
   \<and> resources (Cdn_constructor sampleEngine id ''Web'' (sampleArgs (Wrapped (Inr (DomainObject bothZones)))))
     = [DnsValidatedCertificate ''WebSsl'' (Inl both_hostedZones) (Inl both_hostedZones)
          (Inl both_hostedZones) ''us-east-1'',
        Distribution ''WebDistribution''
          \<lparr>cacheBehavior =
             \<lparr>allowedMethods = [], cachedMethods = [], targetOriginId = ''placeholder'',
              viewerProtocolPolicy = ''redirect-to-https''\<rparr>,
           enabled = True, origins = [], geoRestrictionType = ''none'',
           distributionAliases = Wrapped (Inl both_hostedZones),
           viewerCert = AcmCertificate (Inr ''certificateArn'') ''sni-only''\<rparr>]"
proof -
  have h1: "domain (sampleArgs (Wrapped (Inr (DomainObject bothZones))))
              = Some (Wrapped (Inr (DomainObject bothZones)))"
    by (simp add: sampleArgs_def)
  have h2: "output_of (Wrapped (Inr (DomainObject bothZones))) = Inr (DomainObject bothZones)"
    by simp
  have h3: "truthy (hostedZone bothZones)"
    by (simp add: truthy_def bothZones_def)
  have h4: "truthy (hostedZoneId bothZones)"
    by (simp add: truthy_def bothZones_def)
  have h5: "both_hostedZones
              = (if truthy (domainName bothZones) then both_hostedZones else missing_domainName)"
    by (simp add: truthy_def bothZones_def)
  show ?thesis
    using C1_both_zone_fields_rejected[OF h1 h2 h3 h4 h5 refl refl, of sampleEngine id "''Web''"]
    by (simp add: sampleArgs_def sampleEngine_def)
qed

text \<open>
  C2 as stated does not hold: the descriptor without \<^verbatim>\<open>domainName\<close> is rejected,
  but the certificate and the distribution are declared.
\<close>

theorem C2_counterexample:
  "certificate (Cdn_constructor sampleEngine id ''Web'' (sampleArgs (Plain (DomainObject noDomainName))))
     = Some (DnsValidatedCertificate ''WebSsl'' (Inl missing_domainName) (Inl missing_domainName)
               (Inl missing_domainName) ''us-east-1'')
   \<and> length (resources (Cdn_constructor sampleEngine id ''Web''
                 (sampleArgs (Plain (DomainObject noDomainName))))) = 2"
  by (simp add: Cdn_steps resources_def sampleArgs_def noDomainName_def
      normalizeDomain_def normalize_def apply_output_def truthy_def lookupHostedZoneId_def
      createSsl_def skipped_def createRoute53Records_def createRedirects_def)

text \<open>
  C2, amended: for every structured domain descriptor without \<^verbatim>\<open>domainName\<close>,
  whether handed over plainly or wrapped, the normalized domain is rejected with the
  error about the missing \<^verbatim>\<open>domainName\<close>, and the zone id and \<^verbatim>\<open>domainUrl\<close> with
  it. Exactly two resources are declared, so no zone lookup, DNS record or redirect:
  the certificate, with the rejection as its domain name, alternative names and zone
  id, and the distribution, with what the caller's transform returns on the default
  arguments whose aliases are the rejection and whose viewer certificate is the
  \<^verbatim>\<open>certificateArn\<close> of that certificate.
\<close>

theorem C2_missing_domainName_rejected:
  assumes "domain args = Some i"
    and "output_of i = Inr (DomainObject a)"
    and "domainName a = None"
    and "c = Cdn_constructor eng san name args"
    and "cert = DnsValidatedCertificate (name @ ''Ssl'') (Inl missing_domainName)
                  (Inl missing_domainName) (Inl missing_domainName) ''us-east-1''"
  shows "normalizedDomain c = Some (Inl missing_domainName)
       \<and> zoneId c = Some (Inl missing_domainName)
       \<and> domainUrl c = Some (Inl missing_domainName)
       \<and> resources c = [cert, distribution c]
       \<and> distribution c =
           Distribution (name @ ''Distribution'')
             (transform_distribution args
                \<lparr>cacheBehavior =
                   \<lparr>allowedMethods = [], cachedMethods = [], targetOriginId = ''placeholder'',
                    viewerProtocolPolicy = ''redirect-to-https''\<rparr>,
                 enabled = True, origins = [], geoRestrictionType = ''none'',
                 distributionAliases = Wrapped (Inl missing_domainName),
                 viewerCert = AcmCertificate (eng cert ''certificateArn'') ''sni-only''\<rparr>)"
proof -
  have "normalize (DomainObject a) = Inl missing_domainName"
    using assms(3) by (simp add: normalize_def)
  then have rej: "normalizeDomain args = Some (Inl missing_domainName)"
    using normalizeDomain_object[OF assms(1,2)] by simp
  show ?thesis
    using rejected_domain[OF rej assms(4)] rejected_domain_resources[OF rej assms(4)]
      rejected_domain_distribution[OF rej assms(4)] rej assms(4,5)
    by (simp add: Cdn_normalizedDomain)
qed

theorem C2_missing_domainName_rejected_witness:
  "normalizedDomain (Cdn_constructor sampleEngine id ''Web'' (sampleArgs (Plain (DomainObject noDomainName))))
     = Some (Inl missing_domainName)
   \<and> resources (Cdn_constructor sampleEngine id ''Web'' (sampleArgs (Plain (DomainObject noDomainName))))
     = [DnsValidatedCertificate ''WebSsl'' (Inl missing_domainName) (Inl missing_domainName)
          (Inl missing_domainName) ''us-east-1'',
        Distribution ''WebDistribution''
          \<lparr>cacheBehavior =
             \<lparr>allowedMethods = [], cachedMethods = [], targetOriginId = ''placeholder'',
              viewerProtocolPolicy = ''redirect-to-https''\<rparr>,
           enabled = True, origins = [], geoRestrictionType = ''none'',
           distributionAliases = Wrapped (Inl missing_domainName),
           viewerCert = AcmCertificate (Inr ''certificateArn'') ''sni-only''\<rparr>]"
proof -
  have h1: "domain (sampleArgs (Plain (DomainObject noDomainName)))
              = Some (Plain (DomainObject noDomainName))"
    by (simp add: sampleArgs_def)
  have h2: "output_of (Plain (DomainObject noDomainName)) = Inr (DomainObject noDomainName)"
    by simp
  have h3: "domainName noDomainName = None"
    by (simp add: noDomainName_def)
  show ?thesis
    using C2_missing_domainName_rejected[OF h1 h2 h3 refl refl, of sampleEngine id "''Web''"]
    by (simp add: sampleArgs_def sampleEngine_def)
qed

section \<open>DNS records\<close>

text \<open>
  C3 does not hold of the code at a descriptor whose \<^verbatim>\<open>aliases\<close> property is there
  with the value \<^verbatim>\<open>undefined\<close>. The domain is configured, it normalizes without error
  and its zone id is the given one, but the spread of the normalizer keeps the
  \<^verbatim>\<open>undefined\<close> instead of the default, the callback of the record step throws on it,
  and no DNS record is declared at all, where the claim counts two for a domain without
  aliases. The same descriptor without the property gets its two records.
\<close>

theorem C3_undefined_aliases:
  "normalizedDomain (Cdn_constructor sampleEngine id ''Web''
      (sampleArgs (Plain (DomainObject undefinedAliases)))) = Some (Inr undefinedAliasesConfig)
   \<and> zoneId (Cdn_constructor sampleEngine id ''Web''
      (sampleArgs (Plain (DomainObject undefinedAliases)))) = Some (Inr ''Z2FDTNDATAQYW2'')
   \<and> filter isRecord (resources (Cdn_constructor sampleEngine id ''Web''
      (sampleArgs (Plain (DomainObject undefinedAliases))))) = []
   \<and> length (filter isRecord (resources (Cdn_constructor sampleEngine id ''Web''
      (sampleArgs (Plain (DomainObject zoneIdDescriptor)))))) = 2"
proof -
  have a: "filter isRecord (resources (Cdn_constructor sampleEngine id ''Web''
      (sampleArgs (Plain (DomainObject undefinedAliases))))) = []"
    using records_among_resources[OF normalizeDomain_undefinedAliases refl]
      resolved_domain(3)[OF normalizeDomain_undefinedAliases refl zoneId_undefinedAliases]
    by (simp add: undefinedAliasesConfig_def)
  have b: "length (filter isRecord (resources (Cdn_constructor sampleEngine id ''Web''
      (sampleArgs (Plain (DomainObject zoneIdDescriptor)))))) = 2"
    using records_among_resources[OF normalizeDomain_zoneId refl]
      resolved_domain(3)[OF normalizeDomain_zoneId refl zoneId_zoneId]
    by (simp add: zoneIdConfig_def length_recordsOf)
  show ?thesis
    using a b zoneId_undefinedAliases
    by (simp add: Cdn_normalizedDomain normalizeDomain_undefinedAliases)
qed

section \<open>No domain\<close>

text \<open>
  C4: when the domain argument is absent, no certificate, no DNS record and no
  redirect is declared: the distribution, with no alias and the default certificate,
  is the only resource. \<^verbatim>\<open>domainUrl\<close> is \<^verbatim>\<open>undefined\<close>. \<^verbatim>\<open>url\<close> is an output in
  every case, the \<^verbatim>\<open>https\<close> URL of the \<^verbatim>\<open>domainName\<close> of the distribution: it
  resolves as soon as the engine resolves that name.
\<close>

theorem C4_no_domain:
  assumes "domain args = None"
    and "c = Cdn_constructor eng san name args"
  shows "filter isCertificate (resources c) = []
       \<and> filter isRecord (resources c) = []
       \<and> filter isRedirect (resources c) = []
       \<and> resources c = [distribution c]
       \<and> distribution c =
           Distribution (name @ ''Distribution'')
             (transform_distribution args
                \<lparr>cacheBehavior =
                   \<lparr>allowedMethods = [], cachedMethods = [], targetOriginId = ''placeholder'',
                    viewerProtocolPolicy = ''redirect-to-https''\<rparr>,
                 enabled = True, origins = [], geoRestrictionType = ''none'',
                 distributionAliases = Plain [], viewerCert = DefaultCertificate True\<rparr>)
       \<and> domainUrl c = None
       \<and> url eng c = interpolate_https (eng (distribution c) ''domainName'')
       \<and> (\<forall>h. eng (distribution c) ''domainName'' = Inr h \<longrightarrow> url eng c = Inr (''https://'' @ h))"
proof -
  have none: "normalizeDomain args = None"
    using assms(1) by (simp add: normalizeDomain_def)
  have z: "zoneId c = None" and l: "lookups c = []"
    using none assms(2) by (simp_all add: Cdn_zoneId Cdn_lookups lookupHostedZoneId_def)
  have cert: "certificate c = None"
    using none z assms(2) by (simp add: Cdn_certificate createSsl_def skipped_def)
  have recs: "dnsRecords c = []"
    using none z assms(2) by (simp add: Cdn_dnsRecords createRoute53Records_def skipped_def)
  have reds: "httpsRedirects c = []"
    using none z assms(2) by (simp add: Cdn_httpsRedirects createRedirects_def skipped_def)
  have res: "resources c = [distribution c]"
    using l cert recs reds by (simp add: resources_def)
  have dist: "distribution c =
           Distribution (name @ ''Distribution'')
             (transform_distribution args
                \<lparr>cacheBehavior =
                   \<lparr>allowedMethods = [], cachedMethods = [], targetOriginId = ''placeholder'',
                    viewerProtocolPolicy = ''redirect-to-https''\<rparr>,
                 enabled = True, origins = [], geoRestrictionType = ''none'',
                 distributionAliases = Plain [], viewerCert = DefaultCertificate True\<rparr>)"
    using none cert assms(2) by (simp add: Cdn_distribution createDistribution_def transform_def)
  have kinds: "\<not> isCertificate (distribution c)" "\<not> isRecord (distribution c)"
    "\<not> isRedirect (distribution c)"
    using assms(2) by (simp_all add: distribution_is_distribution)
  have durl: "domainUrl c = None"
    using none assms(2) by (simp add: Cdn_domainUrl)
  have u: "\<forall>h. eng (distribution c) ''domainName'' = Inr h \<longrightarrow> url eng c = Inr (''https://'' @ h)"
    by (simp add: url_def interpolate_https_def apply_output_def)
  show ?thesis
    using res kinds dist durl u by (simp add: url_def)
qed

theorem C4_no_domain_witness:
  "resources (Cdn_constructor sampleEngine id ''Web'' noDomainArgs)
     = [distribution (Cdn_constructor sampleEngine id ''Web'' noDomainArgs)]
   \<and> domainUrl (Cdn_constructor sampleEngine id ''Web'' noDomainArgs) = None
   \<and> url sampleEngine (Cdn_constructor sampleEngine id ''Web'' noDomainArgs)
       = Inr ''https://domainName''"
proof -
  have h: "domain noDomainArgs = None"
    by (simp add: noDomainArgs_def)
  have r: "sampleEngine (distribution (Cdn_constructor sampleEngine id ''Web'' noDomainArgs))
             ''domainName'' = Inr ''domainName''"
    by (simp add: sampleEngine_def)
  show ?thesis
    using C4_no_domain[OF h refl, of sampleEngine id "''Web''"] r
    by (simp add: interpolate_https_def apply_output_def)
qed

section \<open>The zone id\<close>

text \<open>
  C5 as stated does not hold: a \<^verbatim>\<open>hostedZoneId\<close> that is set to the empty string is
  falsy, so the lookup is declared and the given id is not the zone id.
\<close>

theorem C5_counterexample:
  "lookups (Cdn_constructor sampleEngine id ''Web'' (sampleArgs (Plain (DomainObject emptyZoneId))))
     = [HostedZoneLookup ''WebHostedZoneLookup'' ''domain.com'']
   \<and> zoneId (Cdn_constructor sampleEngine id ''Web'' (sampleArgs (Plain (DomainObject emptyZoneId))))
     \<noteq> Some (Inr [])"
  by (simp add: Cdn_steps sampleArgs_def emptyZoneId_def normalizeDomain_def normalize_def
      apply_output_def truthy_def lookupHostedZoneId_def sampleEngine_def)

text \<open>
  C5, amended: for every domain whose \<^verbatim>\<open>hostedZoneId\<close> is a non-empty string, no
  zone lookup is declared and the given id is the zone id, unchanged. Otherwise
  (\<^verbatim>\<open>hostedZoneId\<close> absent or empty) one lookup is declared, by name, with
  \<^verbatim>\<open>hostedZone\<close> when it is present and \<^verbatim>\<open>domainName\<close> when it is not, and the
  zone id is the \<^verbatim>\<open>zoneId\<close> output of that lookup.
\<close>

theorem C5_zone_resolution:
  assumes "normalizeDomain args = Some (Inr d)"
    and "c = Cdn_constructor eng san name args"
    and "r = HostedZoneLookup (name @ ''HostedZoneLookup'')
               (case normHostedZone d of Some h \<Rightarrow> h | None \<Rightarrow> normDomainName d)"
  shows "(\<forall>z. normHostedZoneId d = Some z \<and> z \<noteq> [] \<longrightarrow>
            lookups c = [] \<and> zoneId c = Some (Inr z))
       \<and> (\<not> truthy (normHostedZoneId d) \<longrightarrow>
            lookups c = [r] \<and> zoneId c = Some (eng r ''zoneId''))"
  using assms
  by (auto simp: Cdn_zoneId Cdn_lookups lookupHostedZoneId_def truthy_def Let_def
      split: option.splits)

theorem C5_zone_resolution_witness:
  "lookups (Cdn_constructor sampleEngine id ''Web'' (sampleArgs (Plain (DomainObject zoneIdDescriptor)))) = []
   \<and> zoneId (Cdn_constructor sampleEngine id ''Web'' (sampleArgs (Plain (DomainObject zoneIdDescriptor))))
       = Some (Inr ''Z2FDTNDATAQYW2'')
   \<and> lookups (Cdn_constructor sampleEngine id ''Web'' (sampleArgs (Plain (DomainObject fullDescriptor))))
       = [HostedZoneLookup ''WebHostedZoneLookup'' ''example.com'']"
proof -
  have h1: "normalizeDomain (sampleArgs (Plain (DomainObject zoneIdDescriptor)))
              = Some (Inr zoneIdConfig)"
    by (simp add: normalizeDomain_def sampleArgs_def zoneIdDescriptor_def zoneIdConfig_def
        normalize_def apply_output_def truthy_def)
  have h2: "normHostedZoneId zoneIdConfig = Some ''Z2FDTNDATAQYW2'' \<and> ''Z2FDTNDATAQYW2'' \<noteq> []"
    by (simp add: zoneIdConfig_def)
  have h3: "\<not> truthy (normHostedZoneId fullConfig)"
    by (simp add: fullConfig_def truthy_def)
  show ?thesis
    using C5_zone_resolution[OF h1 refl refl, of sampleEngine id "''Web''"] h2
      C5_zone_resolution[OF normalizeDomain_full refl refl, of sampleEngine id "''Web''"] h3
    by (simp add: fullConfig_def)
qed

section \<open>The normalizer\<close>

text \<open>
  C6 as stated does not hold: the empty string, handed over as it is, is falsy, so
  \<^verbatim>\<open>normalizeDomain\<close> returns \<^verbatim>\<open>undefined\<close> for it, as for an absent domain.
\<close>

theorem C6_counterexample:
  "normalizeDomain (sampleArgs (Plain (DomainString []))) = None"
  by (simp add: normalizeDomain_def sampleArgs_def)

text \<open>
  C6, amended: for every domain input given as a bare string \<open>s\<close>, handed over as it
  is or wrapped in a promise or output, except the empty string handed over as it is,
  normalization yields exactly \<^verbatim>\<open>{domainName: s, aliases: [], redirects: []}\<close>.
\<close>

theorem C6_bare_string:
  assumes "domain args = Some i"
    and "output_of i = Inr (DomainString s)"
    and "i \<noteq> Plain (DomainString [])"
  shows "normalizeDomain args =
           Some (Inr \<lparr>normDomainName = s, normAliases = Some [], normRedirects = Some [],
                      normHostedZone = None, normHostedZoneId = None\<rparr>)"
  using assms by (simp add: normalizeDomain_def apply_output_def normalize_def)

theorem C6_bare_string_witness:
  "normalizeDomain (sampleArgs (Plain (DomainString ''example.com''))) =
     Some (Inr \<lparr>normDomainName = ''example.com'', normAliases = Some [], normRedirects = Some [],
                normHostedZone = None, normHostedZoneId = None\<rparr>)
   \<and> normalizeDomain (sampleArgs (Wrapped (Inr (DomainString [])))) =
     Some (Inr \<lparr>normDomainName = [], normAliases = Some [], normRedirects = Some [],
                normHostedZone = None, normHostedZoneId = None\<rparr>)"
proof -
  have h1: "domain (sampleArgs (Plain (DomainString ''example.com'')))
              = Some (Plain (DomainString ''example.com''))"
    by (simp add: sampleArgs_def)
  have h2: "output_of (Plain (DomainString ''example.com'')) = Inr (DomainString ''example.com'')"
    by simp
  have h3: "Plain (DomainString ''example.com'') \<noteq> Plain (DomainString [])"
    by simp
  have k1: "domain (sampleArgs (Wrapped (Inr (DomainString []))))
              = Some (Wrapped (Inr (DomainString [])))"
    by (simp add: sampleArgs_def)
  have k2: "output_of (Wrapped (Inr (DomainString []))) = Inr (DomainString [])"
    by simp
  have k3: "Wrapped (Inr (DomainString [])) \<noteq> Plain (DomainString [])"
    by simp
  show ?thesis
    using C6_bare_string[OF h1 h2 h3] C6_bare_string[OF k1 k2 k3] by simp
qed

section \<open>Redirects\<close>

text \<open>
  C7: for every configured domain with a resolved zone id, if the redirect list is
  not empty then exactly one redirect is declared, in the zone, whose source domains
  are the whole redirect list and whose target is the primary domain name; if the
  list is empty, none is declared. None is declared either when \<^verbatim>\<open>redirects\<close> is
  \<^verbatim>\<open>undefined\<close>.
\<close>

theorem C7_redirects:
  assumes "normalizeDomain args = Some (Inr d)"
    and "c = Cdn_constructor eng san name args"
    and "zoneId c = Some (Inr z)"
  shows "(\<forall>rs. normRedirects d = Some rs \<and> rs \<noteq> [] \<longrightarrow>
            filter isRedirect (resources c) =
              [HttpsRedirect (name @ ''Redirect'') (Inr z) rs (normDomainName d)])
       \<and> (normRedirects d = Some [] \<longrightarrow> filter isRedirect (resources c) = [])
       \<and> (normRedirects d = None \<longrightarrow> filter isRedirect (resources c) = [])"
proof -
  have reds: "httpsRedirects c =
             (case normRedirects d of
                None \<Rightarrow> []
              | Some rs \<Rightarrow>
                  if rs = [] then []
                  else [HttpsRedirect (name @ ''Redirect'') (Inr z) rs (normDomainName d)])"
    using resolved_domain(4)[OF assms(1,2,3)] .
  have cert: "filter isRedirect (case certificate c of Some r \<Rightarrow> [r] | None \<Rightarrow> []) = []"
    using resolved_domain(2)[OF assms(1,2,3)] by (simp add: isRedirect_def)
  have recs: "filter isRedirect (dnsRecords c) = []"
    using resolved_domain(3)[OF assms(1,2,3)]
    by (simp add: filter_isRedirect_recordsOf split: option.split)
  have "filter isRedirect (resources c) = filter isRedirect (httpsRedirects c)"
    using cert recs lookups_are_lookups(2)[of eng san name args]
      distribution_is_distribution(2)[of eng san name args] assms(2)
    by (simp add: resources_def)
  then show ?thesis
    using reds by (simp add: isRedirect_def)
qed

theorem C7_redirects_witness:
  "filter isRedirect (resources (Cdn_constructor sampleEngine id ''Web''
      (sampleArgs (Plain (DomainObject fullDescriptor)))))
     = [HttpsRedirect ''WebRedirect'' (Inr ''zoneId'') [''www.example.com''] ''app.example.com'']
   \<and> filter isRedirect (resources (Cdn_constructor sampleEngine id ''Web''
      (sampleArgs (Plain (DomainObject zoneIdDescriptor))))) = []"
proof -
  have h3: "normRedirects fullConfig = Some [''www.example.com''] \<and> [''www.example.com''] \<noteq> []"
    and h4: "normRedirects zoneIdConfig = Some []"
    by (simp_all add: fullConfig_def zoneIdConfig_def)
  show ?thesis
    using C7_redirects[OF normalizeDomain_full refl zoneId_full] h3
      C7_redirects[OF normalizeDomain_zoneId refl zoneId_zoneId] h4
    by (simp add: fullConfig_def)
qed

section \<open>Normalizing twice\<close>

text \<open>
  C8 as stated does not hold: an empty string that reaches the callback of the
  normalizer, wrapped in a promise or output, is normalized to a configuration with an
  empty \<^verbatim>\<open>domainName\<close>, and normalizing that configuration again throws the error
  about the missing \<^verbatim>\<open>domainName\<close>.
\<close>

theorem C8_counterexample:
  "normalizeDomain (sampleArgs (Wrapped (Inr (DomainString [])))) = Some (Inr emptyNameConfig)
   \<and> normalize (DomainObject (asDescriptor emptyNameConfig)) = Inl missing_domainName
   \<and> normalizeDomain (sampleArgs (Plain (DomainObject (asDescriptor emptyNameConfig))))
       = Some (Inl missing_domainName)"
  by (simp add: normalizeDomain_def sampleArgs_def apply_output_def normalize_def
      asDescriptor_def emptyNameConfig_def)

text \<open>
  C8, amended: the normalizer is idempotent on every configuration with a non-empty
  \<^verbatim>\<open>domainName\<close> that it has returned, and more generally on every configuration
  with a non-empty \<^verbatim>\<open>domainName\<close> in which \<^verbatim>\<open>hostedZone\<close> and \<^verbatim>\<open>hostedZoneId\<close>
  are not both non-empty. Normalizing it again, read as a descriptor, returns the same
  configuration: every field is kept and the two lists are the ones it had. This
  holds of the callback and of \<^verbatim>\<open>normalizeDomain\<close>, for a descriptor handed over as
  it is or wrapped.
\<close>

theorem C8_normalize_idempotent:
  assumes "normDomainName c \<noteq> []"
    and "(\<exists>v. normalize v = Inr c)
         \<or> \<not> (truthy (normHostedZone c) \<and> truthy (normHostedZoneId c))"
  shows "normalize (DomainObject (asDescriptor c)) = Inr c
       \<and> normalizeDomain (args\<lparr>domain := Some (Plain (DomainObject (asDescriptor c)))\<rparr>)
           = Some (Inr c)
       \<and> normalizeDomain (args\<lparr>domain := Some (Wrapped (Inr (DomainObject (asDescriptor c))))\<rparr>)
           = Some (Inr c)"
proof -
  have zones: "\<not> (truthy (normHostedZone c) \<and> truthy (normHostedZoneId c))"
    using assms(2) normalize_zone_fields by blast
  have "normalize (DomainObject (asDescriptor c)) = Inr c"
    using zones assms(1)
    by (cases "normAliases c"; cases "normRedirects c")
       (simp_all add: normalize_def asDescriptor_def)
  then show ?thesis
    by (simp add: normalizeDomain_def apply_output_def)
qed

theorem C8_normalize_idempotent_witness:
  "normalize (DomainObject (asDescriptor fullConfig)) = Inr fullConfig
   \<and> normalize (DomainObject (asDescriptor undefinedAliasesConfig)) = Inr undefinedAliasesConfig"
proof -
  have h1: "normDomainName fullConfig \<noteq> []"
    by (simp add: fullConfig_def)
  have "normalize (DomainObject fullDescriptor) = Inr fullConfig"
    by (simp add: normalize_def fullDescriptor_def fullConfig_def truthy_def)
  then have h2: "(\<exists>v. normalize v = Inr fullConfig)
         \<or> \<not> (truthy (normHostedZone fullConfig) \<and> truthy (normHostedZoneId fullConfig))"
    by blast
  have k1: "normDomainName undefinedAliasesConfig \<noteq> []"
    by (simp add: undefinedAliasesConfig_def)
  have k2: "(\<exists>v. normalize v = Inr undefinedAliasesConfig)
         \<or> \<not> (truthy (normHostedZone undefinedAliasesConfig)
              \<and> truthy (normHostedZoneId undefinedAliasesConfig))"
    by (simp add: undefinedAliasesConfig_def truthy_def)
  show ?thesis
    using C8_normalize_idempotent[OF h1 h2] C8_normalize_idempotent[OF k1 k2] by simp
qed

section \<open>Looking up a linked resource\<close>

text \<open>
  C9 as stated does not hold: an environment variable that is set to the empty
  string is falsy, so the link table is consulted instead.
\<close>

theorem C9_counterexample:
  "Resource_get [''SST_RESOURCE_MyBucket'' \<mapsto> []] (Some [''MyBucket'' \<mapsto> ''entry'']) ''MyBucket''
     = Entry ''entry''
   \<and> Resource_get [''SST_RESOURCE_MyBucket'' \<mapsto> []] (Some [''MyBucket'' \<mapsto> ''entry'']) ''MyBucket''
     \<noteq> JSON_parse []"
  by (simp add: Resource_get_def)

text \<open>
  C9, amended: if the environment variable \<^verbatim>\<open>SST_RESOURCE_\<close> followed by the name
  is set to a non-empty text, the lookup returns what \<^verbatim>\<open>JSON.parse\<close> makes of it.
  Otherwise, with a link table in place, the entry of the name is returned when the
  table has one, and an error is thrown when it has none, with the name in double
  quotes followed by \<^verbatim>\<open> is not linked\<close> as its message.
\<close>

theorem C9_resource_lookup:
  "(\<forall>s. env (''SST_RESOURCE_'' @ prop) = Some s \<and> s \<noteq> [] \<longrightarrow>
       Resource_get env links prop = JSON_parse s)
   \<and> (\<not> truthy (env (''SST_RESOURCE_'' @ prop)) \<longrightarrow>
        (\<forall>v. table prop = Some v \<longrightarrow> Resource_get env (Some table) prop = Entry v)
      \<and> (table prop = None \<longrightarrow>
           Resource_get env (Some table) prop
             = Throw (Error ([CHR 0x22] @ prop @ [CHR 0x22] @ '' is not linked''))))"
  by (auto simp: Resource_get_def truthy_def not_linked_def Let_def split: option.splits)

theorem C9_resource_lookup_witness:
  "Resource_get [''SST_RESOURCE_MyBucket'' \<mapsto> ''{}''] (Some [''MyBucket'' \<mapsto> ''entry'']) ''MyBucket''
     = JSON_parse ''{}''
   \<and> Resource_get Map.empty (Some [''MyBucket'' \<mapsto> ''entry'']) ''MyBucket'' = Entry ''entry''
   \<and> Resource_get Map.empty (Some [''MyBucket'' \<mapsto> ''entry'']) ''Other''
     = Throw (Error ([CHR 0x22] @ ''Other'' @ [CHR 0x22] @ '' is not linked''))"
proof -
  have h1: "[''SST_RESOURCE_MyBucket'' \<mapsto> ''{}''] (''SST_RESOURCE_'' @ ''MyBucket'') = Some ''{}''
            \<and> ''{}'' \<noteq> []"
    by simp
  have h2: "\<not> truthy ((Map.empty :: string \<rightharpoonup> string) (''SST_RESOURCE_'' @ ''MyBucket''))"
    "\<not> truthy ((Map.empty :: string \<rightharpoonup> string) (''SST_RESOURCE_'' @ ''Other''))"
    by (simp_all add: truthy_def)
  have h3: "[''MyBucket'' \<mapsto> ''entry''] ''MyBucket'' = Some ''entry''"
    "[''MyBucket'' \<mapsto> ''entry''] ''Other'' = None"
    by simp_all
  show ?thesis
    using C9_resource_lookup[of "[''SST_RESOURCE_MyBucket'' \<mapsto> ''{}'']" "''MyBucket''"
        "Some [''MyBucket'' \<mapsto> ''entry'']" "[''MyBucket'' \<mapsto> ''entry'']"]
      C9_resource_lookup[of Map.empty "''MyBucket''" None "[''MyBucket'' \<mapsto> ''entry'']"]
      C9_resource_lookup[of Map.empty "''Other''" None "[''MyBucket'' \<mapsto> ''entry'']"]
      h1 h2 h3
    by simp
qed

section \<open>Zone id and domain\<close>

text \<open>
  C10: within one instance the zone id is defined exactly when the normalized domain
  is, that is when the domain argument is neither absent nor the empty string handed
  over as it is. So the guard of the certificate, DNS record and redirect steps skips
  them exactly when there is no domain, the certificate is declared exactly when there
  is one, and without a domain no lookup, record or redirect is declared. With a
  domain that resolves, the zone id is either the explicit \<^verbatim>\<open>hostedZoneId\<close>, with no
  lookup, or the output of the one lookup declared; the records are declared when the
  alias list is defined, and a redirect exactly when the redirect list is defined and
  not empty.
\<close>

theorem C10_zone_iff_domain:
  assumes "c = Cdn_constructor eng san name args"
  shows "(zoneId c = None) = (normalizedDomain c = None)
       \<and> (normalizedDomain c = None) =
           (domain args = None \<or> domain args = Some (Plain (DomainString [])))
       \<and> skipped (normalizedDomain c) (zoneId c) = (normalizedDomain c = None)
       \<and> skipped (zoneId c) (normalizedDomain c) = (normalizedDomain c = None)
       \<and> (certificate c = None) = (normalizedDomain c = None)
       \<and> (normalizedDomain c = None \<longrightarrow>
            lookups c = [] \<and> dnsRecords c = [] \<and> httpsRedirects c = [])
       \<and> (\<forall>d. normalizedDomain c = Some (Inr d) \<longrightarrow>
            ((\<exists>z. normHostedZoneId d = Some z \<and> lookups c = [] \<and> zoneId c = Some (Inr z))
             \<or> (\<exists>r. lookups c = [r] \<and> isLookup r \<and> zoneId c = Some (eng r ''zoneId'')))
            \<and> (normAliases d \<noteq> None \<longrightarrow> dnsRecords c \<noteq> [])
            \<and> (httpsRedirects c \<noteq> []) = (\<exists>rs. normRedirects d = Some rs \<and> rs \<noteq> []))"
proof -
  have nd: "normalizedDomain c = normalizeDomain args"
    using assms by (simp add: Cdn_normalizedDomain)
  have z: "(zoneId c = None) = (normalizeDomain args = None)"
    using assms
    by (simp add: Cdn_zoneId lookupHostedZoneId_def Let_def split: option.split sum.split)
  have sk: "skipped (normalizeDomain args) (zoneId c) = (normalizeDomain args = None)"
    "skipped (zoneId c) (normalizeDomain args) = (normalizeDomain args = None)"
    using z by (auto simp: skipped_def)
  have cert: "(certificate c = None) = (normalizeDomain args = None)"
    using assms z
    by (cases "normalizeDomain args"; cases "zoneId c")
       (simp_all add: Cdn_certificate createSsl_def skipped_def)
  have none: "normalizeDomain args = None \<longrightarrow>
            lookups c = [] \<and> dnsRecords c = [] \<and> httpsRedirects c = []"
    using assms
    by (simp add: Cdn_lookups Cdn_dnsRecords Cdn_httpsRedirects lookupHostedZoneId_def
        createRoute53Records_def createRedirects_def skipped_def)
  have some: "((\<exists>z. normHostedZoneId d = Some z \<and> lookups c = [] \<and> zoneId c = Some (Inr z))
             \<or> (\<exists>r. lookups c = [r] \<and> isLookup r \<and> zoneId c = Some (eng r ''zoneId'')))
            \<and> (normAliases d \<noteq> None \<longrightarrow> dnsRecords c \<noteq> [])
            \<and> (httpsRedirects c \<noteq> []) = (\<exists>rs. normRedirects d = Some rs \<and> rs \<noteq> [])"
    if d: "normalizeDomain args = Some (Inr d)" for d
  proof -
    obtain zo where zo: "zoneId c = Some zo"
      using resolved_domain(1)[OF d assms] by blast
    have a: "(\<exists>z. normHostedZoneId d = Some z \<and> lookups c = [] \<and> zoneId c = Some (Inr z))
             \<or> (\<exists>r. lookups c = [r] \<and> isLookup r \<and> zoneId c = Some (eng r ''zoneId''))"
      using d assms
      by (simp add: Cdn_zoneId Cdn_lookups lookupHostedZoneId_def Let_def isLookup_def
          split: option.split)
    have b: "dnsRecords c \<noteq> []" if na: "normAliases d \<noteq> None"
    proof -
      obtain as where as: "normAliases d = Some as"
        using na by blast
      have "length (dnsRecords c) = 2 * length (normDomainName d # as)"
        using resolved_domain(3)[OF d assms zo] as by (simp add: length_recordsOf)
      then show ?thesis
        by auto
    qed
    have e: "(httpsRedirects c \<noteq> []) = (\<exists>rs. normRedirects d = Some rs \<and> rs \<noteq> [])"
      using resolved_domain(4)[OF d assms zo] by (simp split: option.split)
    show ?thesis
      using a b e by blast
  qed
  show ?thesis
    using nd z sk cert none some normalizeDomain_None[of args] by simp
qed

theorem C10_zone_iff_domain_witness:
  "zoneId (Cdn_constructor sampleEngine id ''Web'' noDomainArgs) = None
   \<and> certificate (Cdn_constructor sampleEngine id ''Web'' noDomainArgs) = None
   \<and> lookups (Cdn_constructor sampleEngine id ''Web'' noDomainArgs) = []
   \<and> zoneId (Cdn_constructor sampleEngine id ''Web''
         (sampleArgs (Plain (DomainObject fullDescriptor)))) \<noteq> None
   \<and> dnsRecords (Cdn_constructor sampleEngine id ''Web''
         (sampleArgs (Plain (DomainObject fullDescriptor)))) \<noteq> []
   \<and> httpsRedirects (Cdn_constructor sampleEngine id ''Web''
         (sampleArgs (Plain (DomainObject fullDescriptor)))) \<noteq> []"
proof -
  have h1: "normalizedDomain (Cdn_constructor sampleEngine id ''Web'' noDomainArgs) = None"
    by (simp add: Cdn_normalizedDomain normalizeDomain_def noDomainArgs_def)
  have h2: "normalizedDomain (Cdn_constructor sampleEngine id ''Web''
              (sampleArgs (Plain (DomainObject fullDescriptor)))) = Some (Inr fullConfig)"
    by (simp add: Cdn_normalizedDomain normalizeDomain_full)
  have h3: "normAliases fullConfig \<noteq> None"
    "normRedirects fullConfig = Some [''www.example.com''] \<and> [''www.example.com''] \<noteq> []"
    by (simp_all add: fullConfig_def)
  show ?thesis
    using C10_zone_iff_domain[OF refl, of sampleEngine id "''Web''" noDomainArgs] h1
      C10_zone_iff_domain[OF refl, of sampleEngine id "''Web''"
        "sampleArgs (Plain (DomainObject fullDescriptor))"] h2 h3
    by simp
qed

end
